theory Spec2Isabelle
  imports Main "HOL-Library.Word"
begin

section \<open>The SQL elastic pool resource of the AzureRM provider\<close>

text \<open>
  A shallow embedding of \<^verbatim>\<open>azurerm/resource_arm_sql_elasticpool.go\<close>: the four
  lifecycle operations of the resource, the construction of the request payload, the
  parsing of the composite identifier and the validation of the edition.
\<close>

subsection \<open>Go error values\<close>

text \<open>
  A Go \<^verbatim>\<open>error\<close> is either a value handed back by the SDK client or the result
  of \<^verbatim>\<open>fmt.Errorf(format, args...)\<close>. The latter keeps its format string and
  its arguments, so that what an error names and what it wraps can be read off the value.
\<close>

datatype error = ApiError string | Errorf string "fmt_arg list"
  and fmt_arg = ArgString string | ArgError error

subsection \<open>The composite identifier\<close>

text \<open>\<^verbatim>\<open>strings.Split(s, sep)\<close> for a one-character separator.\<close>

fun split_on :: "char \<Rightarrow> string \<Rightarrow> string list" where
  "split_on c [] = [[]]"
| "split_on c (x # xs) =
     (if x = c then [] # split_on c xs
      else (case split_on c xs of
              [] \<Rightarrow> [[x]]
            | s # ss \<Rightarrow> (x # s) # ss))"

record ResourceID =
  ResourceGroup :: string
  Path :: "string \<rightharpoonup> string"

text \<open>
  Modelled from the spec: the extraction of the path segments inside
  \<^verbatim>\<open>parseAzureResourceID\<close>, which is not among the source files. The segments are
  filed, two at a time, as key and value into the component map; a later pair overwrites an
  earlier one with the same key, and an empty key or value ends the parse.
\<close>

fun componentMap :: "string list \<Rightarrow> (string \<rightharpoonup> string) \<Rightarrow> (string \<rightharpoonup> string) option" where
  "componentMap (k # v # rest) m =
     (if k = [] \<or> v = [] then None else componentMap rest (m(k \<mapsto> v)))"
| "componentMap _ m = Some m"

text \<open>
  Modelled from the spec: \<^verbatim>\<open>parseAzureResourceID\<close> belongs to this repository but
  is not among the source files. The spec describes the identifier as a composite resource
  path holding resource-group, server and pool-name segments, read by a fixed path-segment
  extraction rule, and a malformed identifier as a parse failure. The model: the path,
  without its leading slash, is cut at every slash; the segments are key/value pairs; an odd
  number of segments, an empty key or value, or no \<^verbatim>\<open>resourceGroups\<close> pair is a
  parse failure; the resource group is taken out of the pairs and the others form the path
  map.
\<close>

definition parseAzureResourceID :: "string \<Rightarrow> error + ResourceID" where
  "parseAzureResourceID ident =
     (let path = (case ident of [] \<Rightarrow> [] | x # xs \<Rightarrow> if x = CHR ''/'' then xs else x # xs);
          components = split_on (CHR ''/'') path
      in if odd (length components)
         then Inl (Errorf ''The number of path segments is not divisible by 2 in %q'' [ArgString path])
         else (case componentMap components Map.empty of
                 None \<Rightarrow> Inl (Errorf ''Key/Value cannot be empty strings'' [])
               | Some m \<Rightarrow>
                   (case m ''resourceGroups'' of
                      None \<Rightarrow> Inl (Errorf ''No resource group name found in: %q'' [ArgString path])
                    | Some rg \<Rightarrow> Inr \<lparr>ResourceGroup = rg, Path = m(''resourceGroups'' := None)\<rparr>)))"

text \<open>Indexing a Go map of strings: a missing key reads as the empty string.\<close>

definition index_map :: "(string \<rightharpoonup> string) \<Rightarrow> string \<Rightarrow> string" where
  "index_map m k = (case m k of None \<Rightarrow> [] | Some v \<Rightarrow> v)"

definition parseArmSqlElasticPoolId :: "string \<Rightarrow> string \<times> string \<times> string \<times> error option" where
  "parseArmSqlElasticPoolId sqlElasticPoolId =
     (case parseAzureResourceID sqlElasticPoolId of
        Inl err \<Rightarrow>
          ([], [], [],
           Some (Errorf ''[ERROR] Unable to parse SQL ElasticPool ID %q: %+v''
                   [ArgString sqlElasticPoolId, ArgError err]))
      | Inr rid \<Rightarrow>
          (ResourceGroup rid, index_map (Path rid) ''servers'',
           index_map (Path rid) ''elasticPools'', None))"

text \<open>
  Modelled from the spec: the identifier is issued by the remote API, and no function of
  the source builds it. The spec gives its shape: a resource path in which the pattern
  \<^verbatim>\<open>servers/<name>/elasticPools/<name>\<close> is embedded, with the resource group
  before it.
\<close>

definition serializeArmSqlElasticPoolId :: "string \<Rightarrow> string \<Rightarrow> string \<Rightarrow> string \<Rightarrow> string" where
  "serializeArmSqlElasticPoolId subscription resGroup serverName poolName =
     ''/subscriptions/'' @ subscription @ ''/resourceGroups/'' @ resGroup
       @ ''/providers/Microsoft.Sql/servers/'' @ serverName @ ''/elasticPools/'' @ poolName"

text \<open>A name that can stand as one path segment: not empty, and free of the separator.\<close>

definition segment :: "string \<Rightarrow> bool" where
  "segment s \<longleftrightarrow> s \<noteq> [] \<and> CHR ''/'' \<notin> set s"


subsection \<open>Edition validation\<close>

text \<open>A value of Go's empty interface, as the schema's validation functions receive it.\<close>

datatype val = VString string | VInt int | VBool bool

text \<open>The edition constants of the SQL management SDK.\<close>

definition ElasticPoolEditionBasic :: string where
  "ElasticPoolEditionBasic = ''Basic''"

definition ElasticPoolEditionStandard :: string where
  "ElasticPoolEditionStandard = ''Standard''"

definition ElasticPoolEditionPremium :: string where
  "ElasticPoolEditionPremium = ''Premium''"

text \<open>
  \<^verbatim>\<open>strings.ToLower\<close> on ASCII letters. It is consulted only when a validator
  is asked to ignore case, which the edition validator is not.
\<close>

definition ToLower :: "string \<Rightarrow> string" where
  "ToLower s =
     map (\<lambda>c. let n = (of_char c :: nat) in if 65 \<le> n \<and> n \<le> 90 then char_of (n + 32) else c) s"

text \<open>
  \<^verbatim>\<open>validation.StringInSlice(valid, ignoreCase)\<close> of the schema library: the
  validator takes the value and the key and returns the warnings and the errors. It has no
  access to any client.
\<close>

definition StringInSlice :: "string list \<Rightarrow> bool \<Rightarrow> val \<Rightarrow> string \<Rightarrow> string list \<times> error list" where
  "StringInSlice valid ignoreCase i k =
     (case i of
        VString v \<Rightarrow>
          if v \<in> set valid \<or> (ignoreCase \<and> ToLower v \<in> set (map ToLower valid)) then ([], [])
          else ([], [Errorf ''expected %s to be one of %v, got %s''
                       (ArgString k # map ArgString valid @ [ArgString v])])
      | _ \<Rightarrow> ([], [Errorf ''expected type of %s to be string'' [ArgString k]]))"

definition validateSqlElasticPoolEdition :: "val \<Rightarrow> string \<Rightarrow> string list \<times> error list" where
  "validateSqlElasticPoolEdition =
     StringInSlice
       [ElasticPoolEditionBasic, ElasticPoolEditionStandard, ElasticPoolEditionPremium] False"

subsection \<open>The data of the SQL management SDK\<close>

type_synonym int32 = "32 word"

text \<open>Go's conversions \<^verbatim>\<open>int32(x)\<close> (the low 32 bits) and \<^verbatim>\<open>int(x)\<close>.\<close>

definition to_int32 :: "int \<Rightarrow> int32" where
  "to_int32 n = word_of_int n"

definition to_int :: "int32 \<Rightarrow> int" where
  "to_int x = sint x"

text \<open>
  \<^verbatim>\<open>sql.ElasticPoolProperties\<close>, with the fields the resource reads or writes. A
  pointer field is an option, \<open>None\<close> being the nil pointer. The creation date stands
  for its RFC 3339 text, the only thing the resource takes from it.
\<close>

record ElasticPoolProperties =
  CreationDate :: "string option"
  Edition :: string
  Dtu :: "int32 option"
  DatabaseDtuMax :: "int32 option"
  DatabaseDtuMin :: "int32 option"
  StorageMB :: "int32 option"

type_synonym api_tags = "(string \<times> string option) list"

type_synonym local_tags = "(string \<times> string) list"

text \<open>
  \<^verbatim>\<open>sql.ElasticPool\<close>. \<open>Response\<close> is the embedded HTTP response, reduced to
  its status code (\<open>None\<close> when there is no response at all).
\<close>

record ElasticPool =
  Response :: "nat option"
  Properties :: "ElasticPoolProperties option"
  ID :: "string option"
  Name :: "string option"
  Tags :: "api_tags option"
  Location :: "string option"

text \<open>
  Modelled from the spec: \<^verbatim>\<open>utils.ResponseWasNotFound\<close> belongs to this repository
  but is not among the source files. The spec speaks of a not-found response; the model is
  a response with HTTP status 404.
\<close>

definition ResponseWasNotFound :: "nat option \<Rightarrow> bool" where
  "ResponseWasNotFound resp = (case resp of None \<Rightarrow> False | Some code \<Rightarrow> code = 404)"

subsection \<open>The attribute bag\<close>

text \<open>
  \<^verbatim>\<open>schema.ResourceData\<close> under the schema of this resource: the identifier and
  one slot for each key of the schema, typed as the schema types it; \<open>None\<close> is a key
  that is not set. \<^verbatim>\<open>d.Set(key, v)\<close> is the update of the slot, and setting a nil
  pointer leaves the slot unset. Go's \<^verbatim>\<open>int\<close> is read as a mathematical integer;
  its width matters only in the conversion to 32 bits, which is written out.
\<close>

record ResourceData =
  rd_id :: string
  attr_name :: "string option"
  attr_location :: "string option"
  attr_resource_group_name :: "string option"
  attr_server_name :: "string option"
  attr_edition :: "string option"
  attr_dtu :: "int option"
  attr_db_dtu_min :: "int option"
  attr_db_dtu_max :: "int option"
  attr_pool_size :: "int option"
  attr_creation_date :: "string option"
  attr_tags :: "local_tags option"

definition SetId :: "string \<Rightarrow> ResourceData \<Rightarrow> ResourceData" where
  "SetId v d = d\<lparr>rd_id := v\<rparr>"

text \<open>\<^verbatim>\<open>d.Get(key)\<close>: the value of the key, or the zero value of its type.\<close>

definition Get_string :: "string option \<Rightarrow> string" where
  "Get_string a = (case a of None \<Rightarrow> [] | Some s \<Rightarrow> s)"

definition Get_int :: "int option \<Rightarrow> int" where
  "Get_int a = (case a of None \<Rightarrow> 0 | Some n \<Rightarrow> n)"

definition Get_tags :: "local_tags option \<Rightarrow> local_tags" where
  "Get_tags a = (case a of None \<Rightarrow> [] | Some t \<Rightarrow> t)"

text \<open>
  \<^verbatim>\<open>d.GetOk(key)\<close> of the schema library: the value, and whether the key has been
  set to a value other than the zero value of its type.
\<close>

definition GetOk_int :: "int option \<Rightarrow> int \<times> bool" where
  "GetOk_int a = (case a of None \<Rightarrow> (0, False) | Some n \<Rightarrow> (n, n \<noteq> 0))"

subsection \<open>The request payload\<close>

definition getArmSqlElasticPoolProperties :: "ResourceData \<Rightarrow> ElasticPoolProperties" where
  "getArmSqlElasticPoolProperties d =
     (let edition = Get_string (attr_edition d);
          dtu = to_int32 (Get_int (attr_dtu d));
          props = \<lparr>CreationDate = None, Edition = edition, Dtu = Some dtu,
                   DatabaseDtuMax = None, DatabaseDtuMin = None, StorageMB = None\<rparr>;
          props = (case GetOk_int (attr_db_dtu_min d) of
                     (databaseDtuMin, ok) \<Rightarrow>
                       if ok then props\<lparr>DatabaseDtuMin := Some (to_int32 databaseDtuMin)\<rparr>
                       else props);
          props = (case GetOk_int (attr_db_dtu_max d) of
                     (databaseDtuMax, ok) \<Rightarrow>
                       if ok then props\<lparr>DatabaseDtuMax := Some (to_int32 databaseDtuMax)\<rparr>
                       else props);
          props = (case GetOk_int (attr_pool_size d) of
                     (poolSize, ok) \<Rightarrow>
                       if ok then props\<lparr>StorageMB := Some (to_int32 poolSize)\<rparr>
                       else props)
      in props)"

subsection \<open>The remote API\<close>

text \<open>
  The elastic pools client of the SDK, over a remote state of any type \<open>'s\<close>: each
  operation takes the remote state and returns its Go results with the new remote state.
  The future of a long-running operation is opaque.
\<close>

datatype future = Future nat

record 's ElasticPoolsClient =
  CreateOrUpdate :: "string \<Rightarrow> string \<Rightarrow> string \<Rightarrow> ElasticPool \<Rightarrow> 's \<Rightarrow> (future \<times> error option) \<times> 's"
  WaitForCompletion :: "future \<Rightarrow> 's \<Rightarrow> error option \<times> 's"
  Get :: "string \<Rightarrow> string \<Rightarrow> string \<Rightarrow> 's \<Rightarrow> (ElasticPool \<times> error option) \<times> 's"
  Delete :: "string \<Rightarrow> string \<Rightarrow> string \<Rightarrow> 's \<Rightarrow> (nat option \<times> error option) \<times> 's"

record 's ArmClient =
  sqlElasticPoolsClient :: "'s ElasticPoolsClient"

text \<open>The remote calls an operation issues are logged beside the remote state, in order.\<close>

datatype api_call =
    CallCreateOrUpdate string string string ElasticPool
  | CallWaitForCompletion future
  | CallGet string string string
  | CallDelete string string string

record 's remote =
  state :: 's
  calls :: "api_call list"

definition issue :: "api_call \<Rightarrow> 's \<Rightarrow> 's remote \<Rightarrow> 's remote" where
  "issue c s' w = \<lparr>state = s', calls = calls w @ [c]\<rparr>"

definition call_CreateOrUpdate ::
  "'s ElasticPoolsClient \<Rightarrow> string \<Rightarrow> string \<Rightarrow> string \<Rightarrow> ElasticPool \<Rightarrow> 's remote
     \<Rightarrow> (future \<times> error option) \<times> 's remote" where
  "call_CreateOrUpdate client resGroup serverName poolName parameters w =
     (case CreateOrUpdate client resGroup serverName poolName parameters (state w) of
        (r, s') \<Rightarrow> (r, issue (CallCreateOrUpdate resGroup serverName poolName parameters) s' w))"

definition call_WaitForCompletion ::
  "'s ElasticPoolsClient \<Rightarrow> future \<Rightarrow> 's remote \<Rightarrow> error option \<times> 's remote" where
  "call_WaitForCompletion client fut w =
     (case WaitForCompletion client fut (state w) of
        (r, s') \<Rightarrow> (r, issue (CallWaitForCompletion fut) s' w))"

definition call_Get ::
  "'s ElasticPoolsClient \<Rightarrow> string \<Rightarrow> string \<Rightarrow> string \<Rightarrow> 's remote
     \<Rightarrow> (ElasticPool \<times> error option) \<times> 's remote" where
  "call_Get client resGroup serverName poolName w =
     (case Get client resGroup serverName poolName (state w) of
        (r, s') \<Rightarrow> (r, issue (CallGet resGroup serverName poolName) s' w))"

definition call_Delete ::
  "'s ElasticPoolsClient \<Rightarrow> string \<Rightarrow> string \<Rightarrow> string \<Rightarrow> 's remote
     \<Rightarrow> (nat option \<times> error option) \<times> 's remote" where
  "call_Delete client resGroup serverName poolName w =
     (case Delete client resGroup serverName poolName (state w) of
        (r, s') \<Rightarrow> (r, issue (CallDelete resGroup serverName poolName) s' w))"

subsection \<open>The schema\<close>

datatype ValueType = TypeString | TypeInt | TypeMap

record Schema =
  Type :: ValueType
  Required :: bool
  Optional :: bool
  Computed :: bool
  ForceNew :: bool
  ValidateFunc :: "(val \<Rightarrow> string \<Rightarrow> string list \<times> error list) option"

text \<open>
  The functions of this repository that the resource calls and that are not among the
  source files are parameters of the model: the three shared schema entries, the
  normalisation of a location, and the two conversions of the tag set.
\<close>

record helpers =
  locationSchema :: Schema
  resourceGroupNameSchema :: Schema
  tagsSchema :: Schema
  azureRMNormalizeLocation :: "string \<Rightarrow> string"
  expandTags :: "local_tags \<Rightarrow> api_tags"
  flattenAndSetTags :: "ResourceData \<Rightarrow> api_tags option \<Rightarrow> ResourceData"

subsection \<open>The lifecycle operations\<close>

text \<open>
  An operation ends by returning Go's \<^verbatim>\<open>error\<close> (\<open>None\<close> for nil) or by a
  run-time panic. It also yields the attribute bag and the remote side as it leaves them.
  The source's variable \<^verbatim>\<open>name\<close> is \<open>poolName\<close> here; logging and the
  context argument of the client calls have no counterpart.
\<close>

datatype outcome = Return "error option" | Panic string

type_synonym 's operation =
  "ResourceData \<Rightarrow> 's ArmClient \<Rightarrow> 's remote \<Rightarrow> outcome \<times> ResourceData \<times> 's remote"

definition nil_dereference :: string where
  "nil_dereference = ''invalid memory address or nil pointer dereference''"

definition resourceArmSqlElasticPoolRead :: "helpers \<Rightarrow> 's operation" where
  "resourceArmSqlElasticPoolRead h d meta w =
     (let client = sqlElasticPoolsClient meta in
      case parseArmSqlElasticPoolId (rd_id d) of
        (resGroup, serverName, poolName, err) \<Rightarrow>
      (case err of
         Some e \<Rightarrow> (Return (Some e), d, w)
       | None \<Rightarrow>
      (case call_Get client resGroup serverName poolName w of
         ((resp, err), w) \<Rightarrow>
      (case err of
         Some e \<Rightarrow>
           if ResponseWasNotFound (Response resp) then (Return None, SetId [] d, w)
           else (Return (Some (Errorf ''Error making Read request on Sql Elastic Pool %s: %s''
                                 [ArgString poolName, ArgError e])), d, w)
       | None \<Rightarrow>
      (let d = d\<lparr>attr_name := Name resp\<rparr>;
           d = d\<lparr>attr_resource_group_name := Some resGroup\<rparr>
       in case Location resp of
            None \<Rightarrow> (Panic nil_dereference, d, w)
          | Some loc \<Rightarrow>
      (let d = d\<lparr>attr_location := Some (azureRMNormalizeLocation h loc)\<rparr>;
           d = d\<lparr>attr_server_name := Some serverName\<rparr>
       in case Properties resp of
            None \<Rightarrow> (Return None, flattenAndSetTags h d (Tags resp), w)
          | Some elasticPool \<Rightarrow>
      (let d = d\<lparr>attr_edition := Some (Edition elasticPool)\<rparr>
       in case Dtu elasticPool of
            None \<Rightarrow> (Panic nil_dereference, d, w)
          | Some dtu \<Rightarrow>
      (let d = d\<lparr>attr_dtu := Some (to_int dtu)\<rparr>
       in case DatabaseDtuMin elasticPool of
            None \<Rightarrow> (Panic nil_dereference, d, w)
          | Some databaseDtuMin \<Rightarrow>
      (let d = d\<lparr>attr_db_dtu_min := Some (to_int databaseDtuMin)\<rparr>
       in case DatabaseDtuMax elasticPool of
            None \<Rightarrow> (Panic nil_dereference, d, w)
          | Some databaseDtuMax \<Rightarrow>
      (let d = d\<lparr>attr_db_dtu_max := Some (to_int databaseDtuMax)\<rparr>
       in case StorageMB elasticPool of
            None \<Rightarrow> (Panic nil_dereference, d, w)
          | Some storageMB \<Rightarrow>
      (let d = d\<lparr>attr_pool_size := Some (to_int storageMB)\<rparr>;
           d = (case CreationDate elasticPool of
                  None \<Rightarrow> d
                | Some date \<Rightarrow> d\<lparr>attr_creation_date := Some date\<rparr>)
       in (Return None, flattenAndSetTags h d (Tags resp), w))))))))))))"

text \<open>The struct literal that \<^verbatim>\<open>resourceArmSqlElasticPoolCreate\<close> sends.\<close>

definition elasticPool_payload :: "helpers \<Rightarrow> ResourceData \<Rightarrow> ElasticPool" where
  "elasticPool_payload h d =
     \<lparr>Response = None,
      Properties = Some (getArmSqlElasticPoolProperties d),
      ID = None,
      Name = Some (Get_string (attr_name d)),
      Tags = Some (expandTags h (Get_tags (attr_tags d))),
      Location = Some (Get_string (attr_location d))\<rparr>"

definition cannot_read_ID :: "string \<Rightarrow> string \<Rightarrow> error" where
  "cannot_read_ID poolName resGroup =
     Errorf ''Cannot read SQL ElasticPool %q (resource group %q) ID''
       [ArgString poolName, ArgString resGroup]"

definition resourceArmSqlElasticPoolCreate :: "helpers \<Rightarrow> 's operation" where
  "resourceArmSqlElasticPoolCreate h d meta w =
     (let client = sqlElasticPoolsClient meta;
          poolName = Get_string (attr_name d);
          serverName = Get_string (attr_server_name d);
          resGroup = Get_string (attr_resource_group_name d);
          elasticPool = elasticPool_payload h d
      in case call_CreateOrUpdate client resGroup serverName poolName elasticPool w of
           ((fut, err), w) \<Rightarrow>
      (case err of
         Some e \<Rightarrow> (Return (Some e), d, w)
       | None \<Rightarrow>
      (case call_WaitForCompletion client fut w of
         (err, w) \<Rightarrow>
      (case err of
         Some e \<Rightarrow> (Return (Some e), d, w)
       | None \<Rightarrow>
      (case call_Get client resGroup serverName poolName w of
         ((read, err), w) \<Rightarrow>
      (case err of
         Some e \<Rightarrow> (Return (Some e), d, w)
       | None \<Rightarrow>
      (case ID read of
         None \<Rightarrow> (Return (Some (cannot_read_ID poolName resGroup)), d, w)
       | Some i \<Rightarrow> resourceArmSqlElasticPoolRead h (SetId i d) meta w)))))))"

definition resourceArmSqlElasticPoolDelete :: "'s operation" where
  "resourceArmSqlElasticPoolDelete d meta w =
     (let elasticPoolsClient = sqlElasticPoolsClient meta in
      case parseArmSqlElasticPoolId (rd_id d) of
        (resGroup, serverName, poolName, err) \<Rightarrow>
      (case err of
         Some e \<Rightarrow> (Return (Some e), d, w)
       | None \<Rightarrow>
      (case call_Delete elasticPoolsClient resGroup serverName poolName w of
         ((resp, err), w) \<Rightarrow> (Return err, d, w))))"

subsection \<open>The resource\<close>

datatype importer = ImportStatePassthrough

text \<open>
  \<^verbatim>\<open>schema.Resource\<close>. Its fields \<^verbatim>\<open>Delete\<close> and \<^verbatim>\<open>Schema\<close> are
  \<open>Delete_op\<close> and \<open>Schema_map\<close> here, the plain names being taken by the client's
  operation and by the record of a schema entry.
\<close>

record 's Resource =
  Create :: "'s operation"
  Read :: "'s operation"
  Update :: "'s operation"
  Delete_op :: "'s operation"
  Importer :: importer
  Schema_map :: "(string \<times> Schema) list"

definition resourceArmSqlElasticPool :: "helpers \<Rightarrow> 's Resource" where
  "resourceArmSqlElasticPool h =
     \<lparr>Create = resourceArmSqlElasticPoolCreate h,
      Read = resourceArmSqlElasticPoolRead h,
      Update = resourceArmSqlElasticPoolCreate h,
      Delete_op = resourceArmSqlElasticPoolDelete,
      Importer = ImportStatePassthrough,
      Schema_map =
        [(''name'',
            \<lparr>Type = TypeString, Required = True, Optional = False, Computed = False,
             ForceNew = True, ValidateFunc = None\<rparr>),
         (''location'', locationSchema h),
         (''resource_group_name'', resourceGroupNameSchema h),
         (''server_name'',
            \<lparr>Type = TypeString, Required = True, Optional = False, Computed = False,
             ForceNew = True, ValidateFunc = None\<rparr>),
         (''edition'',
            \<lparr>Type = TypeString, Required = True, Optional = False, Computed = False,
             ForceNew = True, ValidateFunc = Some validateSqlElasticPoolEdition\<rparr>),
         (''dtu'',
            \<lparr>Type = TypeInt, Required = True, Optional = False, Computed = False,
             ForceNew = False, ValidateFunc = None\<rparr>),
         (''db_dtu_min'',
            \<lparr>Type = TypeInt, Required = False, Optional = True, Computed = True,
             ForceNew = False, ValidateFunc = None\<rparr>),
         (''db_dtu_max'',
            \<lparr>Type = TypeInt, Required = False, Optional = True, Computed = True,
             ForceNew = False, ValidateFunc = None\<rparr>),
         (''pool_size'',
            \<lparr>Type = TypeInt, Required = False, Optional = True, Computed = True,
             ForceNew = False, ValidateFunc = None\<rparr>),
         (''creation_date'',
            \<lparr>Type = TypeString, Required = False, Optional = False, Computed = True,
             ForceNew = False, ValidateFunc = None\<rparr>),
         (''tags'', tagsSchema h)]\<rparr>"

subsection \<open>A simulated API and sample inputs\<close>

text \<open>
  A client that answers every call with a fixed response and keeps no remote state, for
  running the operations on concrete inputs.
\<close>

definition simulated ::
  "future \<times> error option \<Rightarrow> error option \<Rightarrow> ElasticPool \<times> error option
     \<Rightarrow> nat option \<times> error option \<Rightarrow> unit ArmClient" where
  "simulated createOrUpdateResult waitResult getResult deleteResult =
     \<lparr>sqlElasticPoolsClient =
        \<lparr>CreateOrUpdate = (\<lambda>resGroup serverName poolName parameters s. (createOrUpdateResult, s)),
         WaitForCompletion = (\<lambda>fut s. (waitResult, s)),
         Get = (\<lambda>resGroup serverName poolName s. (getResult, s)),
         Delete = (\<lambda>resGroup serverName poolName s. (deleteResult, s))\<rparr>\<rparr>"

definition untouched :: "unit remote" where
  "untouched = \<lparr>state = (), calls = []\<rparr>"

definition sample_helpers :: helpers where
  "sample_helpers =
     \<lparr>locationSchema =
        \<lparr>Type = TypeString, Required = True, Optional = False, Computed = False,
         ForceNew = True, ValidateFunc = None\<rparr>,
      resourceGroupNameSchema =
        \<lparr>Type = TypeString, Required = True, Optional = False, Computed = False,
         ForceNew = True, ValidateFunc = None\<rparr>,
      tagsSchema =
        \<lparr>Type = TypeMap, Required = False, Optional = True, Computed = True,
         ForceNew = False, ValidateFunc = None\<rparr>,
      azureRMNormalizeLocation = (\<lambda>loc. ToLower (filter (\<lambda>c. c \<noteq> CHR '' '') loc)),
      expandTags = map (\<lambda>(k, v). (k, Some v)),
      flattenAndSetTags =
        (\<lambda>d t. d\<lparr>attr_tags :=
                   Some (case t of
                           None \<Rightarrow> []
                         | Some kvs \<Rightarrow> map (\<lambda>(k, v). (k, Get_string v)) kvs)\<rparr>)\<rparr>"

definition pool1_id :: string where
  "pool1_id = serializeArmSqlElasticPoolId ''sub1'' ''rg1'' ''srv1'' ''pool1''"

text \<open>The desired attributes of a pool with the required fields only.\<close>

definition pool1_desired :: ResourceData where
  "pool1_desired =
     \<lparr>rd_id = [],
      attr_name = Some ''pool1'',
      attr_location = Some ''westus'',
      attr_resource_group_name = Some ''rg1'',
      attr_server_name = Some ''srv1'',
      attr_edition = Some ''Standard'',
      attr_dtu = Some 100,
      attr_db_dtu_min = None,
      attr_db_dtu_max = None,
      attr_pool_size = None,
      attr_creation_date = None,
      attr_tags = None\<rparr>"

text \<open>The same pool once it is tracked under its identifier.\<close>

definition pool1_tracked :: ResourceData where
  "pool1_tracked = pool1_desired\<lparr>rd_id := pool1_id\<rparr>"

text \<open>The same desired attributes with the per-database minimum set to zero.\<close>

definition pool1_zero_min :: ResourceData where
  "pool1_zero_min = pool1_desired\<lparr>attr_db_dtu_min := Some 0\<rparr>"

text \<open>Answers of the remote get: a full pool, a pool without identifier, a pool whose
  properties lack the DTU, and a not-found answer.\<close>

definition pool1_properties :: ElasticPoolProperties where
  "pool1_properties =
     \<lparr>CreationDate = Some ''2024-01-01T00:00:00Z'', Edition = ''Standard'', Dtu = Some 100,
      DatabaseDtuMax = Some 100, DatabaseDtuMin = Some 0, StorageMB = Some 102400\<rparr>"

definition pool1_remote :: ElasticPool where
  "pool1_remote =
     \<lparr>Response = Some 200, Properties = Some pool1_properties, ID = Some pool1_id,
      Name = Some ''pool1'', Tags = None, Location = Some ''westus''\<rparr>"

definition pool1_without_ID :: ElasticPool where
  "pool1_without_ID = pool1_remote\<lparr>ID := None\<rparr>"

definition pool1_without_Dtu :: ElasticPool where
  "pool1_without_Dtu = pool1_remote\<lparr>Properties := Some (pool1_properties\<lparr>Dtu := None\<rparr>)\<rparr>"

definition not_found :: ElasticPool where
  "not_found =
     \<lparr>Response = Some 404, Properties = None, ID = None, Name = None, Tags = None,
      Location = None\<rparr>"

definition server_busy :: ElasticPool where
  "server_busy = not_found\<lparr>Response := Some 503\<rparr>"


text \<open>
  The pool tracked under the identifier of its resource group, a resource path without the
  \<^verbatim>\<open>servers\<close> and \<^verbatim>\<open>elasticPools\<close> segments.
\<close>

definition rg1_id :: string where
  "rg1_id = ''/subscriptions/sub1/resourceGroups/rg1''"

definition pool1_under_rg1_id :: ResourceData where
  "pool1_under_rg1_id = pool1_desired\<lparr>rd_id := rg1_id\<rparr>"

section \<open>Properties\<close>

subsection \<open>Auxiliary facts\<close>

lemma split_on_segment:
  "c \<notin> set s \<Longrightarrow> split_on c (s @ c # rest) = s # split_on c rest"
  by (induction s) (auto split: list.splits)

lemma split_on_last: "c \<notin> set s \<Longrightarrow> split_on c s = [s]"
  by (induction s) (auto split: list.splits)

lemma split_serialized:
  assumes "segment sub" "segment rg" "segment srv" "segment pool"
  shows "split_on (CHR ''/'')
           (''subscriptions/'' @ sub @ ''/resourceGroups/'' @ rg
              @ ''/providers/Microsoft.Sql/servers/'' @ srv @ ''/elasticPools/'' @ pool)
         = [''subscriptions'', sub, ''resourceGroups'', rg, ''providers'', ''Microsoft.Sql'',
            ''servers'', srv, ''elasticPools'', pool]"
proof -
  let ?cut = "split_on (CHR ''/'')"
  have fixed:
    "\<And>rest. ?cut (''subscriptions'' @ CHR ''/'' # rest) = ''subscriptions'' # ?cut rest"
    "\<And>rest. ?cut (''resourceGroups'' @ CHR ''/'' # rest) = ''resourceGroups'' # ?cut rest"
    "\<And>rest. ?cut (''providers'' @ CHR ''/'' # rest) = ''providers'' # ?cut rest"
    "\<And>rest. ?cut (''Microsoft.Sql'' @ CHR ''/'' # rest) = ''Microsoft.Sql'' # ?cut rest"
    "\<And>rest. ?cut (''servers'' @ CHR ''/'' # rest) = ''servers'' # ?cut rest"
    "\<And>rest. ?cut (''elasticPools'' @ CHR ''/'' # rest) = ''elasticPools'' # ?cut rest"
    by (rule split_on_segment, simp)+
  have given:
    "\<And>rest. ?cut (sub @ CHR ''/'' # rest) = sub # ?cut rest"
    "\<And>rest. ?cut (rg @ CHR ''/'' # rest) = rg # ?cut rest"
    "\<And>rest. ?cut (srv @ CHR ''/'' # rest) = srv # ?cut rest"
    "?cut pool = [pool]"
    using assms by (simp_all add: segment_def split_on_segment split_on_last)
  have "?cut (''subscriptions'' @ CHR ''/'' # (sub @ CHR ''/'' # (''resourceGroups'' @ CHR ''/'' #
          (rg @ CHR ''/'' # (''providers'' @ CHR ''/'' # (''Microsoft.Sql'' @ CHR ''/'' #
          (''servers'' @ CHR ''/'' # (srv @ CHR ''/'' # (''elasticPools'' @ CHR ''/'' # pool)))))))))
        = [''subscriptions'', sub, ''resourceGroups'', rg, ''providers'', ''Microsoft.Sql'',
           ''servers'', srv, ''elasticPools'', pool]"
    by (simp only: fixed given)
  then show ?thesis by simp
qed

lemma parse_pool1_id:
  "parseArmSqlElasticPoolId pool1_id = (''rg1'', ''srv1'', ''pool1'', None)"
  by (simp add: pool1_id_def parseArmSqlElasticPoolId_def serializeArmSqlElasticPoolId_def
      parseAzureResourceID_def index_map_def)

lemma parse_bare_name:
  "parseArmSqlElasticPoolId ''pool1''
   = ([], [], [],
      Some (Errorf ''[ERROR] Unable to parse SQL ElasticPool ID %q: %+v''
              [ArgString ''pool1'',
               ArgError (Errorf ''The number of path segments is not divisible by 2 in %q''
                           [ArgString ''pool1''])]))"
  by (simp add: parseArmSqlElasticPoolId_def parseAzureResourceID_def)

text \<open>
  The run of \<^const>\<open>resourceArmSqlElasticPoolCreate\<close>, stage by stage, once the answers
  of the three remote calls are named.
\<close>

lemma create_stages:
  assumes "CreateOrUpdate (sqlElasticPoolsClient meta)
             (Get_string (attr_resource_group_name d)) (Get_string (attr_server_name d))
             (Get_string (attr_name d)) (elasticPool_payload h d) (state w)
           = ((fut, e1), s1)"
    and "WaitForCompletion (sqlElasticPoolsClient meta) fut s1 = (e2, s2)"
    and "Get (sqlElasticPoolsClient meta)
             (Get_string (attr_resource_group_name d)) (Get_string (attr_server_name d))
             (Get_string (attr_name d)) s2
           = ((read, e3), s3)"
  shows "resourceArmSqlElasticPoolCreate h d meta w
         = (let resGroup = Get_string (attr_resource_group_name d);
                serverName = Get_string (attr_server_name d);
                poolName = Get_string (attr_name d);
                c1 = CallCreateOrUpdate resGroup serverName poolName (elasticPool_payload h d);
                c2 = CallWaitForCompletion fut;
                c3 = CallGet resGroup serverName poolName
            in case e1 of
                 Some e \<Rightarrow> (Return (Some e), d, \<lparr>state = s1, calls = calls w @ [c1]\<rparr>)
               | None \<Rightarrow>
            (case e2 of
                 Some e \<Rightarrow> (Return (Some e), d, \<lparr>state = s2, calls = calls w @ [c1, c2]\<rparr>)
               | None \<Rightarrow>
            (case e3 of
                 Some e \<Rightarrow> (Return (Some e), d, \<lparr>state = s3, calls = calls w @ [c1, c2, c3]\<rparr>)
               | None \<Rightarrow>
            (case ID read of
                 None \<Rightarrow> (Return (Some (cannot_read_ID poolName resGroup)), d,
                           \<lparr>state = s3, calls = calls w @ [c1, c2, c3]\<rparr>)
               | Some i \<Rightarrow> resourceArmSqlElasticPoolRead h (SetId i d) meta
                           \<lparr>state = s3, calls = calls w @ [c1, c2, c3]\<rparr>))))"
  using assms
  by (simp add: resourceArmSqlElasticPoolCreate_def call_CreateOrUpdate_def
      call_WaitForCompletion_def call_Get_def issue_def Let_def split: option.splits)

lemma simulated_calls:
  "CreateOrUpdate (sqlElasticPoolsClient (simulated cu wt gt dl)) resGroup serverName poolName p s
   = (cu, s)"
  "WaitForCompletion (sqlElasticPoolsClient (simulated cu wt gt dl)) fut s = (wt, s)"
  "Get (sqlElasticPoolsClient (simulated cu wt gt dl)) resGroup serverName poolName s = (gt, s)"
  "Delete (sqlElasticPoolsClient (simulated cu wt gt dl)) resGroup serverName poolName s = (dl, s)"
  by (simp_all add: simulated_def)

text \<open>A value in the range of 32 bits survives the conversion to the payload and back.\<close>

lemma to_int_to_int32:
  "- (2 ^ 31) \<le> n \<Longrightarrow> n < 2 ^ 31 \<Longrightarrow> to_int (to_int32 n) = n"
  by (simp add: to_int_def to_int32_def sint_sbintrunc' signed_take_bit_int_eq_self)



text \<open>
  The identifier of a resource group parses without error, the two missing names read as
  empty; and the identifiers that the resource path parser rejects.
\<close>

lemma parse_rg1_id:
  "parseArmSqlElasticPoolId rg1_id = (''rg1'', [], [], None)"
  by (simp add: rg1_id_def parseArmSqlElasticPoolId_def parseAzureResourceID_def index_map_def)

lemma parseAzureResourceID_rejects:
  "isl (parseAzureResourceID ident)
   \<longleftrightarrow> (let path = (case ident of [] \<Rightarrow> [] | x # xs \<Rightarrow> if x = CHR ''/'' then xs else x # xs);
           components = split_on (CHR ''/'') path
       in odd (length components)
          \<or> (case componentMap components Map.empty of
                None \<Rightarrow> True
              | Some m \<Rightarrow> m ''resourceGroups'' = None))"
  by (simp add: parseAzureResourceID_def Let_def split: option.splits)



subsection \<open>Reading\<close>

text \<open>
  C1. When the identifier parses and the remote get fails with a not-found response, Read
  clears the identifier, writes nothing else, and returns nil, after that one get. Among
  the failures of the get, Read returns nil for the not-found response and for no other.
\<close>

theorem read_not_found_clears_id:
  assumes "parseArmSqlElasticPoolId (rd_id d) = (resGroup, serverName, poolName, None)"
    and "Get (sqlElasticPoolsClient meta) resGroup serverName poolName (state w)
         = ((resp, Some e), s')"
  shows "(ResponseWasNotFound (Response resp) \<longrightarrow>
           resourceArmSqlElasticPoolRead h d meta w
           = (Return None, SetId [] d, issue (CallGet resGroup serverName poolName) s' w))
       \<and> (fst (resourceArmSqlElasticPoolRead h d meta w) = Return None
           \<longleftrightarrow> ResponseWasNotFound (Response resp))"
  using assms by (simp add: resourceArmSqlElasticPoolRead_def call_Get_def)

theorem read_not_found_clears_id_witness:
  "parseArmSqlElasticPoolId (rd_id pool1_tracked) = (''rg1'', ''srv1'', ''pool1'', None)
   \<and> Get (sqlElasticPoolsClient
       (simulated (Future 0, None) None (not_found, Some (ApiError ''ResourceNotFound''))
          (None, None)))
       ''rg1'' ''srv1'' ''pool1'' (state untouched)
     = ((not_found, Some (ApiError ''ResourceNotFound'')), ())
   \<and> ResponseWasNotFound (Response not_found)
   \<and> resourceArmSqlElasticPoolRead sample_helpers pool1_tracked
       (simulated (Future 0, None) None (not_found, Some (ApiError ''ResourceNotFound''))
          (None, None))
       untouched
     = (Return None, pool1_desired, \<lparr>state = (), calls = [CallGet ''rg1'' ''srv1'' ''pool1'']\<rparr>)"
proof -
  have p: "parseArmSqlElasticPoolId (rd_id pool1_tracked) = (''rg1'', ''srv1'', ''pool1'', None)"
    by (simp add: pool1_tracked_def parse_pool1_id)
  have g: "Get (sqlElasticPoolsClient
       (simulated (Future 0, None) None (not_found, Some (ApiError ''ResourceNotFound''))
          (None, None)))
       ''rg1'' ''srv1'' ''pool1'' (state untouched)
     = ((not_found, Some (ApiError ''ResourceNotFound'')), ())"
    by (simp add: simulated_calls)
  have n: "ResponseWasNotFound (Response not_found)"
    by (simp add: ResponseWasNotFound_def not_found_def)
  show ?thesis
    using read_not_found_clears_id [OF p g, of sample_helpers] p g n
    by (simp add: SetId_def issue_def untouched_def pool1_tracked_def pool1_desired_def)
qed

text \<open>
  C7. When the identifier parses and the remote get fails with a response that is not a
  not-found response, Read returns an error that wraps the error of the get, and leaves
  the identifier and every attribute as they were.
\<close>

theorem read_other_error_propagates:
  assumes "parseArmSqlElasticPoolId (rd_id d) = (resGroup, serverName, poolName, None)"
    and "Get (sqlElasticPoolsClient meta) resGroup serverName poolName (state w)
         = ((resp, Some e), s')"
    and "\<not> ResponseWasNotFound (Response resp)"
  shows "resourceArmSqlElasticPoolRead h d meta w
         = (Return (Some (Errorf ''Error making Read request on Sql Elastic Pool %s: %s''
                            [ArgString poolName, ArgError e])),
            d, issue (CallGet resGroup serverName poolName) s' w)"
  using assms by (simp add: resourceArmSqlElasticPoolRead_def call_Get_def)

theorem read_other_error_propagates_witness:
  "parseArmSqlElasticPoolId (rd_id pool1_tracked) = (''rg1'', ''srv1'', ''pool1'', None)
   \<and> Get (sqlElasticPoolsClient
       (simulated (Future 0, None) None (server_busy, Some (ApiError ''ServiceUnavailable''))
          (None, None)))
       ''rg1'' ''srv1'' ''pool1'' (state untouched)
     = ((server_busy, Some (ApiError ''ServiceUnavailable'')), ())
   \<and> \<not> ResponseWasNotFound (Response server_busy)
   \<and> resourceArmSqlElasticPoolRead sample_helpers pool1_tracked
       (simulated (Future 0, None) None (server_busy, Some (ApiError ''ServiceUnavailable''))
          (None, None))
       untouched
     = (Return (Some (Errorf ''Error making Read request on Sql Elastic Pool %s: %s''
                        [ArgString ''pool1'', ArgError (ApiError ''ServiceUnavailable'')])),
        pool1_tracked, \<lparr>state = (), calls = [CallGet ''rg1'' ''srv1'' ''pool1'']\<rparr>)"
proof -
  have p: "parseArmSqlElasticPoolId (rd_id pool1_tracked) = (''rg1'', ''srv1'', ''pool1'', None)"
    by (simp add: pool1_tracked_def parse_pool1_id)
  have g: "Get (sqlElasticPoolsClient
       (simulated (Future 0, None) None (server_busy, Some (ApiError ''ServiceUnavailable''))
          (None, None)))
       ''rg1'' ''srv1'' ''pool1'' (state untouched)
     = ((server_busy, Some (ApiError ''ServiceUnavailable'')), ())"
    by (simp add: simulated_calls)
  have n: "\<not> ResponseWasNotFound (Response server_busy)"
    by (simp add: ResponseWasNotFound_def server_busy_def not_found_def)
  show ?thesis
    using read_other_error_propagates [OF p g n, of sample_helpers] p g n
    by (simp add: issue_def untouched_def)
qed

text \<open>
  C4. The claim is that Read tolerates nil fields inside a non-nil properties container.
  The code guards the creation date only: on a successful get whose properties lack the
  DTU, Read ends in a nil pointer dereference.
\<close>

theorem read_nil_dtu_panics:
  "fst (resourceArmSqlElasticPoolRead sample_helpers pool1_tracked
         (simulated (Future 0, None) None (pool1_without_Dtu, None) (None, None)) untouched)
   = Panic nil_dereference"
  by (simp add: resourceArmSqlElasticPoolRead_def parse_pool1_id pool1_tracked_def call_Get_def
      simulated_calls pool1_without_Dtu_def pool1_remote_def pool1_properties_def Let_def)

subsection \<open>Creating and updating\<close>

text \<open>
  C6. When the create-or-update call and the wait for its completion succeed and the
  re-fetch succeeds with a pool whose identifier is nil, Create returns the error
  \<^verbatim>\<open>Cannot read SQL ElasticPool %q (resource group %q) ID\<close>, formatted with the pool
  name and the resource group, and leaves the attribute bag as it was.
\<close>

theorem create_missing_identifier_fails:
  assumes "CreateOrUpdate (sqlElasticPoolsClient meta)
             (Get_string (attr_resource_group_name d)) (Get_string (attr_server_name d))
             (Get_string (attr_name d)) (elasticPool_payload h d) (state w)
           = ((fut, None), s1)"
    and "WaitForCompletion (sqlElasticPoolsClient meta) fut s1 = (None, s2)"
    and "Get (sqlElasticPoolsClient meta)
             (Get_string (attr_resource_group_name d)) (Get_string (attr_server_name d))
             (Get_string (attr_name d)) s2
           = ((read, None), s3)"
    and "ID read = None"
  shows "resourceArmSqlElasticPoolCreate h d meta w
         = (Return (Some (Errorf ''Cannot read SQL ElasticPool %q (resource group %q) ID''
                            [ArgString (Get_string (attr_name d)),
                             ArgString (Get_string (attr_resource_group_name d))])),
            d,
            \<lparr>state = s3,
             calls = calls w @
               [CallCreateOrUpdate (Get_string (attr_resource_group_name d))
                  (Get_string (attr_server_name d)) (Get_string (attr_name d))
                  (elasticPool_payload h d),
                CallWaitForCompletion fut,
                CallGet (Get_string (attr_resource_group_name d))
                  (Get_string (attr_server_name d)) (Get_string (attr_name d))]\<rparr>)"
  using assms(4) by (simp add: create_stages [OF assms(1-3)] Let_def cannot_read_ID_def)

theorem create_missing_identifier_fails_witness:
  "ID pool1_without_ID = None
   \<and> resourceArmSqlElasticPoolCreate sample_helpers pool1_desired
       (simulated (Future 0, None) None (pool1_without_ID, None) (None, None)) untouched
     = (Return (Some (Errorf ''Cannot read SQL ElasticPool %q (resource group %q) ID''
                        [ArgString ''pool1'', ArgString ''rg1''])),
        pool1_desired,
        \<lparr>state = (),
         calls = [CallCreateOrUpdate ''rg1'' ''srv1'' ''pool1''
                    (elasticPool_payload sample_helpers pool1_desired),
                  CallWaitForCompletion (Future 0),
                  CallGet ''rg1'' ''srv1'' ''pool1'']\<rparr>)"
proof -
  let ?meta = "simulated (Future 0, None) None (pool1_without_ID, None) (None, None)"
  have c: "CreateOrUpdate (sqlElasticPoolsClient ?meta)
             (Get_string (attr_resource_group_name pool1_desired))
             (Get_string (attr_server_name pool1_desired))
             (Get_string (attr_name pool1_desired))
             (elasticPool_payload sample_helpers pool1_desired) (state untouched)
           = ((Future 0, None), ())"
    by (simp add: simulated_calls)
  have v: "WaitForCompletion (sqlElasticPoolsClient ?meta) (Future 0) () = (None, ())"
    by (simp add: simulated_calls)
  have g: "Get (sqlElasticPoolsClient ?meta)
             (Get_string (attr_resource_group_name pool1_desired))
             (Get_string (attr_server_name pool1_desired))
             (Get_string (attr_name pool1_desired)) ()
           = ((pool1_without_ID, None), ())"
    by (simp add: simulated_calls)
  have i: "ID pool1_without_ID = None"
    by (simp add: pool1_without_ID_def)
  have names: "Get_string (attr_resource_group_name pool1_desired) = ''rg1''"
    "Get_string (attr_server_name pool1_desired) = ''srv1''"
    "Get_string (attr_name pool1_desired) = ''pool1''"
    by (simp_all add: pool1_desired_def Get_string_def)
  show ?thesis
    using create_missing_identifier_fails [OF c v g i] i
    by (simp add: names untouched_def)
qed

text \<open>
  C10. Name the answers of the three remote calls of Create. If the create-or-update call
  fails, or the wait fails, or the re-fetch fails, or the fetched identifier is nil, then
  Create returns an error and the attribute bag it leaves is the one it was given: the
  identifier has not been assigned.
\<close>

theorem create_failure_keeps_id:
  assumes "CreateOrUpdate (sqlElasticPoolsClient meta)
             (Get_string (attr_resource_group_name d)) (Get_string (attr_server_name d))
             (Get_string (attr_name d)) (elasticPool_payload h d) (state w)
           = ((fut, e1), s1)"
    and "WaitForCompletion (sqlElasticPoolsClient meta) fut s1 = (e2, s2)"
    and "Get (sqlElasticPoolsClient meta)
             (Get_string (attr_resource_group_name d)) (Get_string (attr_server_name d))
             (Get_string (attr_name d)) s2
           = ((read, e3), s3)"
    and "e1 \<noteq> None \<or> e2 \<noteq> None \<or> e3 \<noteq> None \<or> ID read = None"
  shows "\<exists>err w'. resourceArmSqlElasticPoolCreate h d meta w = (Return (Some err), d, w')
           \<and> rd_id d = rd_id (fst (snd (resourceArmSqlElasticPoolCreate h d meta w)))"
  using assms(4) by (auto simp add: create_stages [OF assms(1-3)] Let_def split: option.splits)

theorem create_failure_keeps_id_witness:
  "Some (ApiError ''Conflict'') \<noteq> (None :: error option)
   \<and> (\<exists>err w'. resourceArmSqlElasticPoolCreate sample_helpers pool1_desired
         (simulated (Future 0, Some (ApiError ''Conflict'')) None (pool1_remote, None) (None, None))
         untouched
       = (Return (Some err), pool1_desired, w'))
   \<and> rd_id (fst (snd (resourceArmSqlElasticPoolCreate sample_helpers pool1_desired
         (simulated (Future 0, Some (ApiError ''Conflict'')) None (pool1_remote, None) (None, None))
         untouched))) = []"
proof -
  let ?meta = "simulated (Future 0, Some (ApiError ''Conflict'')) None (pool1_remote, None)
                 (None, None)"
  have c: "CreateOrUpdate (sqlElasticPoolsClient ?meta)
             (Get_string (attr_resource_group_name pool1_desired))
             (Get_string (attr_server_name pool1_desired))
             (Get_string (attr_name pool1_desired))
             (elasticPool_payload sample_helpers pool1_desired) (state untouched)
           = ((Future 0, Some (ApiError ''Conflict'')), ())"
    by (simp add: simulated_calls)
  have v: "WaitForCompletion (sqlElasticPoolsClient ?meta) (Future 0) () = (None, ())"
    by (simp add: simulated_calls)
  have g: "Get (sqlElasticPoolsClient ?meta)
             (Get_string (attr_resource_group_name pool1_desired))
             (Get_string (attr_server_name pool1_desired))
             (Get_string (attr_name pool1_desired)) ()
           = ((pool1_remote, None), ())"
    by (simp add: simulated_calls)
  have f: "Some (ApiError ''Conflict'') \<noteq> None \<or> (None :: error option) \<noteq> None
      \<or> (None :: error option) \<noteq> None \<or> ID pool1_remote = None"
    by simp
  have e: "rd_id pool1_desired = []"
    by (simp add: pool1_desired_def)
  show ?thesis
    using create_failure_keeps_id [OF c v g f] e by auto
qed

text \<open>
  C8. The resource registers one function for both Create and Update: on every attribute
  bag, client and remote side, Update is \<^const>\<open>resourceArmSqlElasticPoolCreate\<close>, with
  the same outcome, the same attribute bag and the same remote calls.
\<close>

theorem update_is_create:
  "Update (resourceArmSqlElasticPool h) = Create (resourceArmSqlElasticPool h)
   \<and> Update (resourceArmSqlElasticPool h) d meta w = resourceArmSqlElasticPoolCreate h d meta w
   \<and> Create (resourceArmSqlElasticPool h) d meta w = resourceArmSqlElasticPoolCreate h d meta w"
  by (simp add: resourceArmSqlElasticPool_def)

text \<open>
  Two runs of Create against the simulated API. In the first every step succeeds: the
  identifier is assigned and Read fills the attributes from the fetched pool. In the second
  the fetched identifier is not a resource path: it is assigned, and the error is that of
  the Read that follows.
\<close>

lemma create_end_to_end:
  "resourceArmSqlElasticPoolCreate sample_helpers pool1_desired
     (simulated (Future 0, None) None (pool1_remote, None) (None, None)) untouched
   = (Return None,
      \<lparr>rd_id = pool1_id,
       attr_name = Some ''pool1'',
       attr_location = Some ''westus'',
       attr_resource_group_name = Some ''rg1'',
       attr_server_name = Some ''srv1'',
       attr_edition = Some ''Standard'',
       attr_dtu = Some 100,
       attr_db_dtu_min = Some 0,
       attr_db_dtu_max = Some 100,
       attr_pool_size = Some 102400,
       attr_creation_date = Some ''2024-01-01T00:00:00Z'',
       attr_tags = Some []\<rparr>,
      \<lparr>state = (),
       calls = [CallCreateOrUpdate ''rg1'' ''srv1'' ''pool1''
                  (elasticPool_payload sample_helpers pool1_desired),
                CallWaitForCompletion (Future 0),
                CallGet ''rg1'' ''srv1'' ''pool1'',
                CallGet ''rg1'' ''srv1'' ''pool1'']\<rparr>)"
proof -
  let ?meta = "simulated (Future 0, None) None (pool1_remote, None) (None, None)"
  have names: "Get_string (attr_resource_group_name pool1_desired) = ''rg1''"
    "Get_string (attr_server_name pool1_desired) = ''srv1''"
    "Get_string (attr_name pool1_desired) = ''pool1''"
    by (simp_all add: pool1_desired_def Get_string_def)
  have c: "CreateOrUpdate (sqlElasticPoolsClient ?meta)
             (Get_string (attr_resource_group_name pool1_desired))
             (Get_string (attr_server_name pool1_desired))
             (Get_string (attr_name pool1_desired))
             (elasticPool_payload sample_helpers pool1_desired) (state untouched)
           = ((Future 0, None), ())"
    by (simp add: simulated_calls)
  have v: "WaitForCompletion (sqlElasticPoolsClient ?meta) (Future 0) () = (None, ())"
    by (simp add: simulated_calls)
  have g: "Get (sqlElasticPoolsClient ?meta)
             (Get_string (attr_resource_group_name pool1_desired))
             (Get_string (attr_server_name pool1_desired))
             (Get_string (attr_name pool1_desired)) ()
           = ((pool1_remote, None), ())"
    by (simp add: simulated_calls)
  have i: "ID pool1_remote = Some pool1_id"
    by (simp add: pool1_remote_def)
  have r: "resourceArmSqlElasticPoolRead sample_helpers (SetId pool1_id pool1_desired) ?meta w
     = (Return None,
      \<lparr>rd_id = pool1_id,
       attr_name = Some ''pool1'',
       attr_location = Some ''westus'',
       attr_resource_group_name = Some ''rg1'',
       attr_server_name = Some ''srv1'',
       attr_edition = Some ''Standard'',
       attr_dtu = Some 100,
       attr_db_dtu_min = Some 0,
       attr_db_dtu_max = Some 100,
       attr_pool_size = Some 102400,
       attr_creation_date = Some ''2024-01-01T00:00:00Z'',
       attr_tags = Some []\<rparr>, \<lparr>state = (), calls = calls w @ [CallGet ''rg1'' ''srv1'' ''pool1'']\<rparr>)" for w
    by (simp add: resourceArmSqlElasticPoolRead_def SetId_def parse_pool1_id call_Get_def
        simulated_calls issue_def Let_def pool1_remote_def pool1_properties_def
        pool1_desired_def sample_helpers_def ToLower_def to_int_def)
  show ?thesis
    unfolding create_stages [OF c v g]
    by (simp add: i r Let_def names untouched_def)
qed

lemma create_error_after_SetId:
  "resourceArmSqlElasticPoolCreate sample_helpers pool1_desired
     (simulated (Future 0, None) None (pool1_remote\<lparr>ID := Some ''pool1''\<rparr>, None) (None, None))
     untouched
   = (Return (Some (Errorf ''[ERROR] Unable to parse SQL ElasticPool ID %q: %+v''
              [ArgString ''pool1'',
               ArgError (Errorf ''The number of path segments is not divisible by 2 in %q''
                           [ArgString ''pool1''])])),
      pool1_desired\<lparr>rd_id := ''pool1''\<rparr>,
      \<lparr>state = (),
       calls = [CallCreateOrUpdate ''rg1'' ''srv1'' ''pool1''
                  (elasticPool_payload sample_helpers pool1_desired),
                CallWaitForCompletion (Future 0),
                CallGet ''rg1'' ''srv1'' ''pool1'']\<rparr>)"
proof -
  let ?meta = "simulated (Future 0, None) None (pool1_remote\<lparr>ID := Some ''pool1''\<rparr>, None) (None, None)"
  have names: "Get_string (attr_resource_group_name pool1_desired) = ''rg1''"
    "Get_string (attr_server_name pool1_desired) = ''srv1''"
    "Get_string (attr_name pool1_desired) = ''pool1''"
    by (simp_all add: pool1_desired_def Get_string_def)
  have c: "CreateOrUpdate (sqlElasticPoolsClient ?meta)
             (Get_string (attr_resource_group_name pool1_desired))
             (Get_string (attr_server_name pool1_desired))
             (Get_string (attr_name pool1_desired))
             (elasticPool_payload sample_helpers pool1_desired) (state untouched)
           = ((Future 0, None), ())"
    by (simp add: simulated_calls)
  have v: "WaitForCompletion (sqlElasticPoolsClient ?meta) (Future 0) () = (None, ())"
    by (simp add: simulated_calls)
  have g: "Get (sqlElasticPoolsClient ?meta)
             (Get_string (attr_resource_group_name pool1_desired))
             (Get_string (attr_server_name pool1_desired))
             (Get_string (attr_name pool1_desired)) ()
           = ((pool1_remote\<lparr>ID := Some ''pool1''\<rparr>, None), ())"
    by (simp add: simulated_calls)
  have r: "resourceArmSqlElasticPoolRead sample_helpers (SetId ''pool1'' pool1_desired) ?meta w
     = (Return (Some (Errorf ''[ERROR] Unable to parse SQL ElasticPool ID %q: %+v''
              [ArgString ''pool1'',
               ArgError (Errorf ''The number of path segments is not divisible by 2 in %q''
                           [ArgString ''pool1''])])), pool1_desired\<lparr>rd_id := ''pool1''\<rparr>, w)" for w
    by (simp add: resourceArmSqlElasticPoolRead_def SetId_def parse_bare_name)
  show ?thesis
    unfolding create_stages [OF c v g]
    by (simp add: r Let_def names untouched_def)
qed

subsection \<open>Deleting\<close>

text \<open>
  C9, as stated: a malformed identifier causes a parse error before any remote call. It
  fails for the identifier of a resource group, which names neither server nor pool: it
  parses without error, the missing \<^verbatim>\<open>servers\<close> and \<^verbatim>\<open>elasticPools\<close> entries
  of the path map read as empty strings, and Delete issues the remote delete of a pool with
  an empty server name and an empty pool name.
\<close>

theorem delete_unparsed_counterexample:
  "parseArmSqlElasticPoolId (rd_id pool1_under_rg1_id) = (''rg1'', [], [], None)
   \<and> resourceArmSqlElasticPoolDelete pool1_under_rg1_id
        (simulated (Future 0, None) None (not_found, None) (Some 204, None)) untouched
      = (Return None, pool1_under_rg1_id,
         \<lparr>state = (), calls = [CallDelete ''rg1'' [] []]\<rparr>)"
  by (simp add: resourceArmSqlElasticPoolDelete_def pool1_under_rg1_id_def parse_rg1_id
      call_Delete_def issue_def simulated_calls untouched_def)

text \<open>
  C9, amended. When the resource path parser accepts the identifier, Delete issues one
  remote call, the delete under the resource group of the identifier and the values of its
  \<^verbatim>\<open>servers\<close> and \<^verbatim>\<open>elasticPools\<close> segments, the empty string standing for a
  segment that is missing; it returns whatever error that call returned, nil included,
  whatever the response was, and leaves the attribute bag untouched. When the resource path
  parser rejects the identifier, Delete returns that parse error, wrapped with the
  identifier, and issues no remote call.
\<close>

theorem delete_issues_one_call:
  "(parseAzureResourceID (rd_id d) = Inr rid
      \<and> Delete (sqlElasticPoolsClient meta) (ResourceGroup rid)
          (index_map (Path rid) ''servers'') (index_map (Path rid) ''elasticPools'') (state w)
        = ((resp, err), s')
    \<longrightarrow> resourceArmSqlElasticPoolDelete d meta w
        = (Return err, d,
           \<lparr>state = s',
            calls = calls w @
              [CallDelete (ResourceGroup rid) (index_map (Path rid) ''servers'')
                 (index_map (Path rid) ''elasticPools'')]\<rparr>))
   \<and> (parseAzureResourceID (rd_id d) = Inl e
    \<longrightarrow> resourceArmSqlElasticPoolDelete d meta w
        = (Return (Some (Errorf ''[ERROR] Unable to parse SQL ElasticPool ID %q: %+v''
                           [ArgString (rd_id d), ArgError e])),
           d, w))"
  by (simp add: resourceArmSqlElasticPoolDelete_def parseArmSqlElasticPoolId_def
      call_Delete_def issue_def)

theorem delete_issues_one_call_witness:
  "parseArmSqlElasticPoolId (rd_id pool1_tracked) = (''rg1'', ''srv1'', ''pool1'', None)
   \<and> Delete (sqlElasticPoolsClient
        (simulated (Future 0, None) None (not_found, None) (Some 204, None)))
        ''rg1'' ''srv1'' ''pool1'' (state untouched)
      = ((Some 204, None), ())
   \<and> resourceArmSqlElasticPoolDelete pool1_tracked
        (simulated (Future 0, None) None (not_found, None) (Some 204, None)) untouched
      = (Return None, pool1_tracked,
         \<lparr>state = (), calls = [CallDelete ''rg1'' ''srv1'' ''pool1'']\<rparr>)
   \<and> parseAzureResourceID (rd_id (pool1_desired\<lparr>rd_id := ''pool1''\<rparr>))
      = Inl (Errorf ''The number of path segments is not divisible by 2 in %q''
               [ArgString ''pool1''])
   \<and> resourceArmSqlElasticPoolDelete (pool1_desired\<lparr>rd_id := ''pool1''\<rparr>)
        (simulated (Future 0, None) None (not_found, None) (Some 204, None)) untouched
      = (Return (Some (Errorf ''[ERROR] Unable to parse SQL ElasticPool ID %q: %+v''
                         [ArgString ''pool1'',
                          ArgError (Errorf ''The number of path segments is not divisible by 2 in %q''
                                      [ArgString ''pool1''])])),
         pool1_desired\<lparr>rd_id := ''pool1''\<rparr>, untouched)"
proof -
  let ?meta = "simulated (Future 0, None) None (not_found, None) (Some 204, None)"
  let ?bad = "pool1_desired\<lparr>rd_id := ''pool1''\<rparr>"
  let ?e = "Errorf ''The number of path segments is not divisible by 2 in %q'' [ArgString ''pool1'']"
  have p: "parseArmSqlElasticPoolId (rd_id pool1_tracked) = (''rg1'', ''srv1'', ''pool1'', None)"
    by (simp add: pool1_tracked_def parse_pool1_id)
  then obtain rid where rid: "parseAzureResourceID (rd_id pool1_tracked) = Inr rid"
    and fields: "ResourceGroup rid = ''rg1''" "index_map (Path rid) ''servers'' = ''srv1''"
      "index_map (Path rid) ''elasticPools'' = ''pool1''"
    by (auto simp add: parseArmSqlElasticPoolId_def split: sum.splits)
  have r: "Delete (sqlElasticPoolsClient ?meta) ''rg1'' ''srv1'' ''pool1'' (state untouched)
           = ((Some 204, None), ())"
    by (simp add: simulated_calls)
  have q: "parseAzureResourceID (rd_id ?bad) = Inl ?e"
    by (simp add: parseAzureResourceID_def)
  have well: "resourceArmSqlElasticPoolDelete pool1_tracked ?meta untouched
      = (Return None, pool1_tracked,
         \<lparr>state = (), calls = calls untouched @ [CallDelete ''rg1'' ''srv1'' ''pool1'']\<rparr>)"
    using delete_issues_one_call [of pool1_tracked rid ?meta untouched "Some 204" None "()"]
      rid r by (simp add: fields)
  have ill: "resourceArmSqlElasticPoolDelete ?bad ?meta untouched
      = (Return (Some (Errorf ''[ERROR] Unable to parse SQL ElasticPool ID %q: %+v''
                         [ArgString ''pool1'', ArgError ?e])), ?bad, untouched)"
    using delete_issues_one_call [of ?bad _ ?meta untouched _ _ _ ?e] q by simp
  show ?thesis
    using p r q well ill by (simp add: untouched_def)
qed

subsection \<open>Validating the edition\<close>



subsection \<open>Building the payload\<close>

text \<open>
  C3, as stated: the payload holds the per-database minimum exactly when the desired
  attributes set it. It fails when the attribute is set to zero: \<^verbatim>\<open>GetOk\<close> reports
  a zero value as not set, and the payload field stays nil.
\<close>

theorem payload_zero_counterexample:
  "\<not> (DatabaseDtuMin (getArmSqlElasticPoolProperties pool1_zero_min) \<noteq> None
      \<longleftrightarrow> attr_db_dtu_min pool1_zero_min \<noteq> None)"
  by (simp add: getArmSqlElasticPoolProperties_def GetOk_int_def Let_def pool1_zero_min_def
      pool1_desired_def)

text \<open>
  C3, amended. The payload always holds the edition of the desired attributes and their
  DTU, converted to 32 bits. Each of the per-database minimum, the per-database maximum
  and the pool size is in the payload, converted to 32 bits, exactly when the desired
  attributes set it to a value other than zero; when it is unset or zero, the payload
  field is nil.
\<close>

theorem payload_properties:
  "Edition (getArmSqlElasticPoolProperties d) = Get_string (attr_edition d)
   \<and> Dtu (getArmSqlElasticPoolProperties d) = Some (to_int32 (Get_int (attr_dtu d)))
   \<and> DatabaseDtuMin (getArmSqlElasticPoolProperties d)
     = (case attr_db_dtu_min d of
          None \<Rightarrow> None
        | Some n \<Rightarrow> if n = 0 then None else Some (to_int32 n))
   \<and> DatabaseDtuMax (getArmSqlElasticPoolProperties d)
     = (case attr_db_dtu_max d of
          None \<Rightarrow> None
        | Some n \<Rightarrow> if n = 0 then None else Some (to_int32 n))
   \<and> StorageMB (getArmSqlElasticPoolProperties d)
     = (case attr_pool_size d of
          None \<Rightarrow> None
        | Some n \<Rightarrow> if n = 0 then None else Some (to_int32 n))
   \<and> Properties (elasticPool_payload h d) = Some (getArmSqlElasticPoolProperties d)"
  by (simp add: getArmSqlElasticPoolProperties_def GetOk_int_def Let_def elasticPool_payload_def
      split: option.splits)

subsection \<open>The identifier round trip\<close>

text \<open>
  C2, as stated: parsing the serialized triple gives the triple back, for every triple. It
  fails for a server name that contains the separator: the parser reads the name
  \<^verbatim>\<open>x/elasticPools/y\<close> as further path segments and answers the server \<^verbatim>\<open>x\<close>.
\<close>

theorem roundtrip_counterexample:
  "parseArmSqlElasticPoolId
     (serializeArmSqlElasticPoolId ''sub1'' ''rg1'' ''x/elasticPools/y'' ''pool1'')
   \<noteq> (''rg1'', ''x/elasticPools/y'', ''pool1'', None)"
  by (simp add: parseArmSqlElasticPoolId_def serializeArmSqlElasticPoolId_def
      parseAzureResourceID_def index_map_def)

text \<open>
  C2, amended. For a subscription, a resource group, a server name and a pool name that
  are each non-empty and free of the slash, parsing the serialized identifier gives back
  the resource group, the server name and the pool name, and no error.
\<close>

theorem roundtrip_segments:
  assumes "segment subscription" "segment resGroup" "segment serverName" "segment poolName"
  shows "parseArmSqlElasticPoolId
           (serializeArmSqlElasticPoolId subscription resGroup serverName poolName)
         = (resGroup, serverName, poolName, None)"
  using assms split_serialized [OF assms]
  by (simp add: parseArmSqlElasticPoolId_def serializeArmSqlElasticPoolId_def
      parseAzureResourceID_def index_map_def segment_def)

theorem roundtrip_segments_witness:
  "segment ''sub1'' \<and> segment ''rg1'' \<and> segment ''srv1'' \<and> segment ''pool1''
   \<and> parseArmSqlElasticPoolId (serializeArmSqlElasticPoolId ''sub1'' ''rg1'' ''srv1'' ''pool1'')
     = (''rg1'', ''srv1'', ''pool1'', None)"
proof -
  have s: "segment ''sub1''" "segment ''rg1''" "segment ''srv1''" "segment ''pool1''"
    by (simp_all add: segment_def)
  show ?thesis
    using roundtrip_segments [OF s] s by simp
qed

end
